theory Spec2Isabelle
  imports Complex_Main "HOL-Library.Multiset" "HOL-Library.Sublist" "HOL-Library.AList"
begin

section \<open>Values of the program\<close>

subsection \<open>Text\<close>

text \<open>
  A Python \<open>str\<close> is a sequence of Unicode code points. The labels and keywords of
  the program are Chinese, so text is modelled as a list of code points and not as a
  list of bytes; \<open>u\<close> embeds an ASCII literal.
\<close>

type_synonym ustr = "nat list"

definition u :: "string \<Rightarrow> ustr" where
  "u s = map of_char s"

text \<open>\<open>str.isspace\<close> on one code point: the 29 code points Python treats as whitespace.\<close>

definition py_isspace :: "nat \<Rightarrow> bool" where
  "py_isspace c \<longleftrightarrow>
     (9 \<le> c \<and> c \<le> 13) \<or> (28 \<le> c \<and> c \<le> 32) \<or> c = 133 \<or> c = 160 \<or> c = 5760 \<or>
     (8192 \<le> c \<and> c \<le> 8202) \<or> c = 8232 \<or> c = 8233 \<or> c = 8239 \<or> c = 8287 \<or> c = 12288"

text \<open>\<open>s.strip()\<close>\<close>

definition py_strip :: "ustr \<Rightarrow> ustr" where
  "py_strip s = rev (dropWhile py_isspace (rev (dropWhile py_isspace s)))"

text \<open>\<open>s.replace(",", "")\<close>: every comma (code point 44) is removed.\<close>

definition remove_commas :: "ustr \<Rightarrow> ustr" where
  "remove_commas s = filter (\<lambda>c. c \<noteq> 44) s"

text \<open>
  \<open>s.replace("--", "0")\<close>: scanning from the left, every non-overlapping occurrence of
  two hyphens (45 45) becomes the digit zero (48).
\<close>

fun replace_dashes :: "ustr \<Rightarrow> ustr" where
  "replace_dashes (a # b # cs) =
     (if a = 45 \<and> b = 45 then 48 # replace_dashes cs else a # replace_dashes (b # cs))"
| "replace_dashes cs = cs"

text \<open>\<open>kw in s\<close>: \<open>kw\<close> occurs in \<open>s\<close> as a contiguous run.\<close>

fun contains :: "ustr \<Rightarrow> ustr \<Rightarrow> bool" where
  "contains kw [] = (kw = [])"
| "contains kw (c # cs) = (prefix kw (c # cs) \<or> contains kw cs)"

subsection \<open>Floating-point values\<close>

text \<open>
  A float is NaN, an infinity or a finite number. Finite numbers are modelled as reals:
  rounding to 53 bits, overflow and the sign of zero are not modelled. Comparisons and
  arithmetic follow IEEE 754 on the special values: every comparison with NaN is false.
\<close>

datatype pyfloat = NaN | NegInf | Num real | PosInf

fun fl_lt :: "pyfloat \<Rightarrow> pyfloat \<Rightarrow> bool" where
  "fl_lt NaN b = False"
| "fl_lt a NaN = False"
| "fl_lt (Num x) (Num y) = (x < y)"
| "fl_lt a NegInf = False"
| "fl_lt NegInf b = True"
| "fl_lt PosInf b = False"
| "fl_lt (Num x) PosInf = True"

fun fl_le :: "pyfloat \<Rightarrow> pyfloat \<Rightarrow> bool" where
  "fl_le NaN b = False"
| "fl_le a NaN = False"
| "fl_le (Num x) (Num y) = (x \<le> y)"
| "fl_le NegInf b = True"
| "fl_le a PosInf = True"
| "fl_le a NegInf = False"
| "fl_le PosInf b = False"

definition fl_gt :: "pyfloat \<Rightarrow> pyfloat \<Rightarrow> bool" where
  "fl_gt a b = fl_lt b a"

definition fl_ge :: "pyfloat \<Rightarrow> pyfloat \<Rightarrow> bool" where
  "fl_ge a b = fl_le b a"

definition isnan :: "pyfloat \<Rightarrow> bool" where
  "isnan a = (a = NaN)"

fun fl_neg :: "pyfloat \<Rightarrow> pyfloat" where
  "fl_neg NaN = NaN"
| "fl_neg NegInf = PosInf"
| "fl_neg PosInf = NegInf"
| "fl_neg (Num x) = Num (- x)"

fun fl_add :: "pyfloat \<Rightarrow> pyfloat \<Rightarrow> pyfloat" where
  "fl_add NaN b = NaN"
| "fl_add a NaN = NaN"
| "fl_add (Num x) (Num y) = Num (x + y)"
| "fl_add PosInf NegInf = NaN"
| "fl_add NegInf PosInf = NaN"
| "fl_add PosInf b = PosInf"
| "fl_add NegInf b = NegInf"
| "fl_add (Num x) b = b"

definition fl_sub :: "pyfloat \<Rightarrow> pyfloat \<Rightarrow> pyfloat" where
  "fl_sub a b = fl_add a (fl_neg b)"

text \<open>The sign of a value that is not NaN, as \<open>-1\<close>, \<open>0\<close> or \<open>1\<close>.\<close>

fun fl_sgn :: "pyfloat \<Rightarrow> int" where
  "fl_sgn NaN = 0"
| "fl_sgn NegInf = - 1"
| "fl_sgn PosInf = 1"
| "fl_sgn (Num x) = (if x < 0 then - 1 else if x = 0 then 0 else 1)"

definition signed_inf :: "int \<Rightarrow> pyfloat" where
  "signed_inf s = (if s = 0 then NaN else if s < 0 then NegInf else PosInf)"

fun fl_mul :: "pyfloat \<Rightarrow> pyfloat \<Rightarrow> pyfloat" where
  "fl_mul NaN b = NaN"
| "fl_mul a NaN = NaN"
| "fl_mul (Num x) (Num y) = Num (x * y)"
| "fl_mul a b = signed_inf (fl_sgn a * fl_sgn b)"

text \<open>
  Division as numpy's \<open>float64\<close> does it: a finite number divided by zero is an infinity
  (NaN for \<open>0 / 0\<close>) and no exception is raised.
\<close>

fun fl_div :: "pyfloat \<Rightarrow> pyfloat \<Rightarrow> pyfloat" where
  "fl_div NaN b = NaN"
| "fl_div a NaN = NaN"
| "fl_div (Num x) (Num y) = (if y = 0 then signed_inf (fl_sgn (Num x)) else Num (x / y))"
| "fl_div (Num x) b = Num 0"
| "fl_div a (Num y) = signed_inf (fl_sgn a * (if y < 0 then - 1 else 1))"
| "fl_div a b = NaN"

text \<open>
  Rounding to \<open>d\<close> decimals as numpy does it (\<open>rint (x * 10 ^ d) / 10 ^ d\<close>), where
  \<open>rint\<close> rounds to the nearest integer and a tie to the even one. The product is exact
  here; in binary floating point a decimal tie such as \<open>14.375 * 100\<close> may fall just
  beside the tie and round the other way, which this model does not show.
\<close>

definition rint :: "real \<Rightarrow> int" where
  "rint x =
     (let f = \<lfloor>x\<rfloor>; r = x - of_int f
      in if r < 1 / 2 then f else if 1 / 2 < r then f + 1 else if even f then f else f + 1)"

fun fl_round :: "nat \<Rightarrow> pyfloat \<Rightarrow> pyfloat" where
  "fl_round d (Num x) = Num (of_int (rint (x * 10 ^ d)) / 10 ^ d)"
| "fl_round d a = a"

subsection \<open>The builtin \<open>float\<close> on text\<close>

text \<open>
  \<open>float(s)\<close> strips less than \<open>str.strip\<close>: the ASCII whitespace of C (tab to
  carriage return, and the space) and the whitespace beyond ASCII, but not the
  separators 28 to 31.
\<close>

definition float_isspace :: "nat \<Rightarrow> bool" where
  "float_isspace c \<longleftrightarrow> (9 \<le> c \<and> c \<le> 13) \<or> c = 32 \<or> (127 \<le> c \<and> py_isspace c)"

definition float_strip :: "ustr \<Rightarrow> ustr" where
  "float_strip s = rev (dropWhile float_isspace (rev (dropWhile float_isspace s)))"

text \<open>
  \<open>float(s)\<close> accepts, after stripping whitespace, an optional sign followed by
  \<open>inf\<close>, \<open>infinity\<close> or \<open>nan\<close> in any letter case, or by a decimal number: digits with
  single underscores between them, an optional point, an optional exponent. Anything
  else raises \<open>ValueError\<close>, which is the result \<open>None\<close> here. A digit is any code
  point of the Unicode category \<open>Nd\<close>; they come in runs of ten, from the digit zero to
  the digit nine, and \<open>decimal_zeros\<close> lists the zero of every run (Unicode 14). A number
  at or above \<open>2 ^ 1024 - 2 ^ 970\<close> rounds to an infinity; below it the value is kept
  exact.
\<close>

definition decimal_zeros :: "nat list" where
  "decimal_zeros =
     [48, 1632, 1776, 1984, 2406, 2534, 2662, 2790, 2918, 3046, 3174, 3302, 3430, 3558,
      3664, 3792, 3872, 4160, 4240, 6112, 6160, 6470, 6608, 6784, 6800, 6992, 7088, 7232,
      7248, 42528, 43216, 43264, 43472, 43504, 43600, 44016, 65296, 66720, 68912, 69734,
      69872, 69942, 70096, 70384, 70736, 70864, 71248, 71360, 71472, 71904, 72016, 72784,
      73040, 73120, 92768, 92864, 93008, 120782, 120792, 120802, 120812, 120822, 123200,
      123632, 125264, 130032]"

definition digit_val :: "nat \<Rightarrow> nat option" where
  "digit_val c =
     (if 48 \<le> c \<and> c \<le> 57 then Some (c - 48)
      else if c < 1632 then None
      else (case find (\<lambda>z. z \<le> c \<and> c < z + 10) decimal_zeros of
              Some z \<Rightarrow> Some (c - z)
            | None \<Rightarrow> None))"

text \<open>The rest of a digit part, \<open>(["_"] digit)*\<close>: its digits and the text after it.\<close>

fun scan_digits :: "ustr \<Rightarrow> nat list \<times> ustr" where
  "scan_digits [] = ([], [])"
| "scan_digits (c # cs) =
     (case digit_val c of
        Some d \<Rightarrow> (case scan_digits cs of (ds, r) \<Rightarrow> (d # ds, r))
      | None \<Rightarrow>
          (if c = 95 then
             (case cs of
                [] \<Rightarrow> ([], c # cs)
              | c' # cs' \<Rightarrow>
                  (case digit_val c' of
                     Some d \<Rightarrow> (case scan_digits cs' of (ds, r) \<Rightarrow> (d # ds, r))
                   | None \<Rightarrow> ([], c # cs)))
           else ([], c # cs)))"

text \<open>A digit part, \<open>digit (["_"] digit)*\<close>.\<close>

definition digitpart :: "ustr \<Rightarrow> (nat list \<times> ustr) option" where
  "digitpart s =
     (case s of
        [] \<Rightarrow> None
      | c # cs \<Rightarrow>
          (case digit_val c of
             None \<Rightarrow> None
           | Some d \<Rightarrow> (case scan_digits cs of (ds, r) \<Rightarrow> Some (d # ds, r))))"

text \<open>\<open>[digitpart] "." digitpart | digitpart ["."]\<close>: integer digits, fraction digits, rest.\<close>

definition number :: "ustr \<Rightarrow> (nat list \<times> nat list \<times> ustr) option" where
  "number s =
     (case digitpart s of
        Some (ip, r) \<Rightarrow>
          (case r of
             [] \<Rightarrow> Some (ip, [], r)
           | c # r' \<Rightarrow>
               (if c = 46 then
                  (case digitpart r' of
                     Some (fp, r'') \<Rightarrow> Some (ip, fp, r'')
                   | None \<Rightarrow> Some (ip, [], r'))
                else Some (ip, [], r)))
      | None \<Rightarrow>
          (case s of
             [] \<Rightarrow> None
           | c # r' \<Rightarrow>
               (if c = 46 then
                  (case digitpart r' of
                     Some (fp, r'') \<Rightarrow> Some ([], fp, r'')
                   | None \<Rightarrow> None)
                else None)))"

definition digits_value :: "nat list \<Rightarrow> nat" where
  "digits_value ds = foldl (\<lambda>acc d. 10 * acc + d) 0 ds"

text \<open>An optional sign: whether it is a minus, and the text after it.\<close>

definition split_sign :: "ustr \<Rightarrow> bool \<times> ustr" where
  "split_sign s =
     (case s of
        [] \<Rightarrow> (False, s)
      | c # cs \<Rightarrow> (if c = 45 then (True, cs) else if c = 43 then (False, cs) else (False, s)))"

text \<open>\<open>("e" | "E") ["+" | "-"] digitpart\<close> up to the end of the text, or nothing at all.\<close>

definition exponent :: "ustr \<Rightarrow> int option" where
  "exponent s =
     (case s of
        [] \<Rightarrow> Some 0
      | c # cs \<Rightarrow>
          (if c = 101 \<or> c = 69 then
             (case split_sign cs of
                (neg, t) \<Rightarrow>
                  (case digitpart t of
                     Some (ds, []) \<Rightarrow>
                       Some (if neg then - int (digits_value ds) else int (digits_value ds))
                   | _ \<Rightarrow> None))
           else None))"

definition scale10 :: "real \<Rightarrow> int \<Rightarrow> real" where
  "scale10 m k = (if 0 \<le> k then m * 10 ^ nat k else m / 10 ^ nat (- k))"

definition floatnumber :: "ustr \<Rightarrow> real option" where
  "floatnumber s =
     (case number s of
        None \<Rightarrow> None
      | Some (ip, fp, r) \<Rightarrow>
          (case exponent r of
             None \<Rightarrow> None
           | Some e \<Rightarrow> Some (scale10 (real (digits_value (ip @ fp))) (e - int (length fp)))))"

definition ascii_lower :: "nat \<Rightarrow> nat" where
  "ascii_lower c = (if 65 \<le> c \<and> c \<le> 90 then c + 32 else c)"

definition overflows :: "real \<Rightarrow> bool" where
  "overflows v \<longleftrightarrow> 2 ^ 1024 - 2 ^ 970 \<le> v"

definition py_float :: "ustr \<Rightarrow> pyfloat option" where
  "py_float s =
     (case split_sign (float_strip s) of
        (neg, body) \<Rightarrow>
          (let low = map ascii_lower body in
           if low = u ''inf'' \<or> low = u ''infinity'' then Some (if neg then NegInf else PosInf)
           else if low = u ''nan'' then Some NaN
           else (case floatnumber body of
                   None \<Rightarrow> None
                 | Some v \<Rightarrow>
                     Some (if overflows v then (if neg then NegInf else PosInf)
                           else Num (if neg then - v else v)))))"

section \<open>The universe builder\<close>

subsection \<open>Cell parsing\<close>

text \<open>
  \<open>to_num\<close> and \<open>to_price\<close> of \<open>extract_top300\<close>. The argument is the text \<open>str(x)\<close>
  of the cell. The \<open>try\<close> is the \<open>case\<close>: a \<open>ValueError\<close> of \<open>float\<close> is caught and
  replaced by the default.
\<close>

definition clean_cell :: "ustr \<Rightarrow> ustr" where
  "clean_cell x = py_strip (replace_dashes (remove_commas x))"

definition to_num :: "ustr \<Rightarrow> pyfloat" where
  "to_num x = (case py_float (clean_cell x) of Some v \<Rightarrow> v | None \<Rightarrow> Num 0)"

definition to_price :: "ustr \<Rightarrow> pyfloat" where
  "to_price x = (case py_float (clean_cell x) of Some v \<Rightarrow> v | None \<Rightarrow> NaN)"

subsection \<open>Tables and instruments\<close>

text \<open>
  An exception that escapes a function is a value: a function that can raise returns
  an \<open>outcome\<close>.
\<close>

datatype py_error = ValueError | AttributeError | OSError | OtherError

datatype 'a outcome = Returned 'a | Raised py_error

text \<open>
  The raw table is a DataFrame built from the provider's rows and field names: the
  column labels in order, and the rows, each a list of cell texts (\<open>str(x)\<close> of the
  cell). A DataFrame is rectangular; pandas fills a row that is too short with \<open>None\<close>.
\<close>

record raw_table =
  columns :: "ustr list"
  rows :: "ustr list list"

definition cell :: "ustr list \<Rightarrow> nat \<Rightarrow> ustr" where
  "cell r i = (if i < length r then r ! i else u ''None'')"

text \<open>A normalised row, and the instrument it becomes once \<open>volume_lots\<close> is derived.\<close>

record norm_row =
  code :: ustr
  name :: ustr
  volume_shares :: pyfloat
  close_price :: pyfloat

record instrument = norm_row +
  volume_lots :: pyfloat

datatype field_key = KCode | KName | KVol | KClose

text \<open>The provider's labels: security code, security name, traded shares, closing price.\<close>

definition label_code :: ustr where
  "label_code = [35657, 21048, 20195, 34399]"

definition label_name :: ustr where
  "label_name = [35657, 21048, 21517, 31281]"

definition label_vol :: ustr where
  "label_vol = [25104, 20132, 32929, 25976]"

definition label_close :: ustr where
  "label_close = [25910, 30436, 20729]"

text \<open>
  \<open>exclude_name_keywords\<close>, in the order of the source: ETF, warrant, DR, beneficiary
  security, fund, nine issuer names and sectors, securities, insurance.
\<close>

definition exclude_name_keywords :: "ustr list" where
  "exclude_name_keywords =
     [u ''ETF'', [27402, 35657], u ''DR'', [21463, 30410, 35657, 21048], [22522, 37329],
      [23500, 37030], [20803, 22823], [22283, 27888], [32676, 30410], [27704, 35920],
      [21488, 26032], [37504, 34892], [37329, 25511], [37329, 34701], [35657, 21048],
      [20445, 38570]]"

text \<open>
  \<open>re.sub("<.*?>", "", s)\<close>: from a \<open><\<close> (60) up to the first \<open>>\<close> (62) after it is
  removed, when no newline (10) lies in between; \<open>.\<close> does not match a newline.
  \<open>has_close\<close> says that such a \<open>>\<close> exists; \<open>strip_tags True\<close> is inside a match.
\<close>

fun has_close :: "ustr \<Rightarrow> bool" where
  "has_close [] = False"
| "has_close (c # cs) = (c = 62 \<or> (c \<noteq> 10 \<and> has_close cs))"

fun strip_tags :: "bool \<Rightarrow> ustr \<Rightarrow> ustr" where
  "strip_tags inside [] = []"
| "strip_tags True (c # cs) = (if c = 62 then strip_tags False cs else strip_tags True cs)"
| "strip_tags False (c # cs) =
     (if c = 60 \<and> has_close cs then strip_tags True cs else c # strip_tags False cs)"

text \<open>
  The loop that fills \<open>col_map\<close>. A Python dict keeps its keys in the order of their
  first insertion, as \<open>AList.update\<close> does; a later matching column overwrites an
  earlier one.
\<close>

definition col_step :: "(field_key \<times> ustr) list \<Rightarrow> ustr \<Rightarrow> (field_key \<times> ustr) list" where
  "col_step m c =
     (let m1 = (if contains label_code c then AList.update KCode c m else m);
          m2 = (if contains label_name c then AList.update KName c m1 else m1);
          m3 = (if contains label_vol c then AList.update KVol c m2 else m2)
      in if contains label_close c then AList.update KClose c m3 else m3)"

definition col_map_of :: "ustr list \<Rightarrow> (field_key \<times> ustr) list" where
  "col_map_of cols = foldl col_step [] cols"

text \<open>
  \<open>df[[a, b, c, d]]\<close> selects, for each label, every column that carries it. The
  positions of the selected columns, in order:
\<close>

definition positions :: "ustr list \<Rightarrow> ustr \<Rightarrow> nat list" where
  "positions cols l = filter (\<lambda>i. cols ! i = l) [0..<length cols]"

definition normalise_row :: "nat \<Rightarrow> nat \<Rightarrow> nat \<Rightarrow> nat \<Rightarrow> ustr list \<Rightarrow> norm_row" where
  "normalise_row ic inm iv icl r =
     \<lparr>code = py_strip (cell r ic),
      name = py_strip (strip_tags False (cell r inm)),
      volume_shares = to_num (cell r iv),
      close_price = to_price (cell r icl)\<rparr>"

text \<open>\<open>str.contains("|".join(exclude_name_keywords))\<close>: some keyword occurs in the name.\<close>

definition excluded :: "ustr \<Rightarrow> bool" where
  "excluded nm = list_ex (\<lambda>kw. contains kw nm) exclude_name_keywords"

definition derive_lots :: "norm_row \<Rightarrow> instrument" where
  "derive_lots r =
     \<lparr>code = code r, name = name r, volume_shares = volume_shares r,
      close_price = close_price r,
      volume_lots = fl_round 3 (fl_div (volume_shares r) (Num 1000))\<rparr>"

datatype build_failure = MissingColumns "field_key list"

text \<open>
  \<open>df.sort_values(volume, ascending=False)\<close> with the defaults \<open>kind="quicksort"\<close>
  and \<open>na_position="last"\<close>. pandas computes the order in \<open>nargsort\<close>: the positions of
  the values that are not NaN are reversed, numpy's \<open>argsort\<close> orders the reversed values
  ascending, the result is reversed again, and the positions of the NaN values follow
  in table order. \<open>argsort\<close> with \<open>kind="quicksort"\<close> is numpy's own kernel, which differs
  between numpy builds; it is the parameter \<open>argsort\<close>. It returns positions of its
  argument, so every lookup below is in range.
\<close>

definition nargsort :: "(pyfloat list \<Rightarrow> nat list) \<Rightarrow> pyfloat list \<Rightarrow> nat list" where
  "nargsort argsort items =
     (let idx = [0..<length items];
          non_nan_idx = rev (filter (\<lambda>i. items ! i \<noteq> NaN) idx);
          nan_idx = filter (\<lambda>i. items ! i = NaN) idx;
          non_nans = map (\<lambda>i. items ! i) non_nan_idx;
          indexer = map (\<lambda>k. non_nan_idx ! k) (argsort non_nans)
      in rev indexer @ nan_idx)"

definition sort_values :: "(pyfloat list \<Rightarrow> nat list) \<Rightarrow> norm_row list \<Rightarrow> norm_row list" where
  "sort_values argsort df = map (\<lambda>i. df ! i) (nargsort argsort (map volume_shares df))"

text \<open>
  \<open>extract_top300\<close>. \<open>argsort\<close> is numpy's sorting kernel (see above). \<open>to_csv\<close> is the
  write of the snapshot; it returns the exception it raises, if any. The write is not
  inside a \<open>try\<close>. The assignment of four labels to the selected columns raises
  \<open>ValueError\<close> when more than four columns were selected.
\<close>

definition extract_top300 ::
  "(pyfloat list \<Rightarrow> nat list) \<Rightarrow> (instrument list \<Rightarrow> py_error option) \<Rightarrow>
   raw_table \<Rightarrow> (build_failure + instrument list) outcome" where
  "extract_top300 argsort to_csv df_raw =
     (let cols = map py_strip (columns df_raw);
          col_map = col_map_of cols
      in case (map_of col_map KCode, map_of col_map KName,
               map_of col_map KVol, map_of col_map KClose) of
           (Some lb_code, Some lb_name, Some lb_vol, Some lb_close) \<Rightarrow>
             (case positions cols lb_code @ positions cols lb_name @
                   positions cols lb_vol @ positions cols lb_close of
                [ic, inm, iv, icl] \<Rightarrow>
                  (let df = map (normalise_row ic inm iv icl) (rows df_raw);
                       kept = filter (\<lambda>r. \<not> excluded (name r)) df;
                       top = map derive_lots (take 300 (sort_values argsort kept))
                   in case to_csv top of
                        Some e \<Rightarrow> Raised e
                      | None \<Rightarrow> Returned (Inr top))
              | _ \<Rightarrow> Raised ValueError)
         | _ \<Rightarrow> Returned (Inl (MissingColumns (map fst col_map))))"

text \<open>
  What numpy promises of \<open>argsort\<close> whatever the kernel: the positions of the argument,
  each once, in an order in which no value is followed by a smaller one. numpy compares
  with \<open>a < b or (b is NaN and a is not)\<close>, which puts NaN last. A kernel is stable when
  it leaves the positions of equal values in ascending order; \<open>kind="quicksort"\<close> does
  not promise that.
\<close>

definition np_less :: "pyfloat \<Rightarrow> pyfloat \<Rightarrow> bool" where
  "np_less a b \<longleftrightarrow> fl_lt a b \<or> (b = NaN \<and> a \<noteq> NaN)"

definition argsort_contract :: "(pyfloat list \<Rightarrow> nat list) \<Rightarrow> bool" where
  "argsort_contract argsort \<longleftrightarrow>
     (\<forall>vs. mset (argsort vs) = mset [0..<length vs] \<and>
           sorted_wrt (\<lambda>i j. \<not> np_less (vs ! j) (vs ! i)) (argsort vs))"


text \<open>
  A kernel that keeps the promise: insertion sort. Taking the positions from the last to
  the first, each is put in front of the first position whose value is not smaller.
\<close>

fun insert_position :: "pyfloat list \<Rightarrow> nat \<Rightarrow> nat list \<Rightarrow> nat list" where
  "insert_position vs i [] = [i]"
| "insert_position vs i (j # js) =
     (if \<not> np_less (vs ! j) (vs ! i) then i # j # js else j # insert_position vs i js)"

definition insertion_argsort :: "pyfloat list \<Rightarrow> nat list" where
  "insertion_argsort vs = foldr (insert_position vs) [0..<length vs] []"



text \<open>The header of the provider's table reduced to the four labels the builder needs.\<close>

definition std_columns :: "ustr list" where
  "std_columns = [label_code, label_name, label_vol, label_close]"

section \<open>The strength evaluator\<close>

text \<open>
  The history provider returns a DataFrame: its column labels and its bars in date
  order. Only \<open>Close\<close> and \<open>Volume\<close> are read; when a label is absent the field of
  that name is not looked at.
\<close>

record bar =
  Close :: pyfloat
  Volume :: pyfloat

record frame =
  col_names :: "string list"
  bars :: "bar list"

text \<open>\<open>data.empty\<close>: an axis of length zero.\<close>

definition frame_empty :: "frame \<Rightarrow> bool" where
  "frame_empty d \<longleftrightarrow> bars d = [] \<or> col_names d = []"

text \<open>
  \<open>s.rolling(k).mean()\<close>: undefined (NaN) on the first \<open>k - 1\<close> rows, then the mean of the
  \<open>k\<close> values ending at the row, NaN when one of them is NaN. The mean is computed from
  the window itself. pandas replaces an infinite value by NaN before it averages; the
  history provider returns no infinite bar, and that replacement is not modelled.
\<close>

definition window_mean :: "pyfloat list \<Rightarrow> pyfloat" where
  "window_mean w = fl_div (foldl fl_add (Num 0) w) (Num (real (length w)))"

definition rolling_mean :: "nat \<Rightarrow> pyfloat list \<Rightarrow> pyfloat list" where
  "rolling_mean k xs =
     map (\<lambda>i. if i + 1 < k then NaN else window_mean (take k (drop (i + 1 - k) xs)))
       [0..<length xs]"

text \<open>\<open>s.max()\<close>: the greatest value that is not NaN, NaN when there is none.\<close>

definition fl_max2 :: "pyfloat \<Rightarrow> pyfloat \<Rightarrow> pyfloat" where
  "fl_max2 a b = (if fl_lt a b then b else a)"

definition fl_max :: "pyfloat list \<Rightarrow> pyfloat" where
  "fl_max xs = (case filter (\<lambda>v. v \<noteq> NaN) xs of [] \<Rightarrow> NaN | v # vs \<Rightarrow> foldl fl_max2 v vs)"

text \<open>The frame with its moving averages, as \<open>is_strong_stock\<close> returns it.\<close>

record history =
  h_bars :: "bar list"
  MA3 :: "pyfloat list"
  MA5 :: "pyfloat list"
  MA8 :: "pyfloat list"
  MA20 :: "pyfloat list"
  MA60 :: "pyfloat list"
  MA5_vol :: "pyfloat list"

record conditions =
  cond_vols_up :: bool
  cond_yesterday_vs_ma5 :: bool
  cond_close_above_ma5 :: bool
  cond_close_new10 :: bool
  cond_pct :: bool
  pct :: pyfloat

datatype reason = Tag string | ErrorTag py_error | Conditions conditions

record verdict =
  passed :: bool
  reason :: reason
  data :: "history option"

definition with_averages :: "bar list \<Rightarrow> history" where
  "with_averages bs =
     \<lparr>h_bars = bs,
      MA3 = rolling_mean 3 (map Close bs),
      MA5 = rolling_mean 5 (map Close bs),
      MA8 = rolling_mean 8 (map Close bs),
      MA20 = rolling_mean 20 (map Close bs),
      MA60 = rolling_mean 60 (map Close bs),
      MA5_vol = rolling_mean 5 (map Volume bs)\<rparr>"

text \<open>
  The five conditions, on a history of at least ten bars: every index read below is in
  range then. \<open>tail(k)\<close> is \<open>drop (n - k)\<close>, \<open>iloc[-1]\<close> is index \<open>n - 1\<close> and \<open>iloc[-2]\<close>
  is index \<open>n - 2\<close>.
\<close>

definition evaluate_conditions :: "history \<Rightarrow> conditions" where
  "evaluate_conditions h =
     (let n = length (h_bars h);
          vols = map Volume (h_bars h);
          closes = map Close (h_bars h);
          last_vols = drop (n - 3) vols;
          c_vols_up = (length last_vols = 3 \<and>
                       fl_lt (last_vols ! 0) (last_vols ! 1) \<and> fl_lt (last_vols ! 1) (last_vols ! 2));
          c_yesterday = (if \<not> isnan (MA5_vol h ! (n - 2))
                         then fl_gt (vols ! (n - 2)) (fl_mul (MA5_vol h ! (n - 2)) (Num 2))
                         else False);
          close_today = closes ! (n - 1);
          ma5_today = MA5 h ! (n - 1);
          c_above = (\<not> isnan ma5_today \<and> fl_gt close_today ma5_today);
          ten_high = fl_max (drop (n - 10) closes);
          c_new10 = (fl_ge close_today ten_high \<or> fl_ge close_today (fl_mul ten_high (Num (95 / 100))));
          prev_close = closes ! (n - 2);
          p = fl_mul (fl_div (fl_sub close_today prev_close) prev_close) (Num 100);
          c_pct = fl_gt p (Num 3)
      in \<lparr>cond_vols_up = c_vols_up, cond_yesterday_vs_ma5 = c_yesterday,
          cond_close_above_ma5 = c_above, cond_close_new10 = c_new10, cond_pct = c_pct,
          pct = fl_round 2 p\<rparr>)"

definition all_conditions :: "conditions \<Rightarrow> bool" where
  "all_conditions c \<longleftrightarrow>
     cond_vols_up c \<and> cond_yesterday_vs_ma5 c \<and> cond_close_above_ma5 c \<and>
     cond_close_new10 c \<and> cond_pct c"

text \<open>
  \<open>is_strong_stock\<close>. \<open>download\<close> is \<open>yf.download\<close>: it raises, returns nothing or
  returns a frame. The body of the \<open>try\<close> on a frame is \<open>evaluate_frame\<close>; an exception of
  the download is caught by the \<open>except\<close> and becomes the reason.
\<close>

definition evaluate_frame :: "frame \<Rightarrow> verdict" where
  "evaluate_frame d =
     (if frame_empty d \<or> ''Close'' \<notin> set (col_names d) then
        \<lparr>passed = False, reason = Tag ''no-data'', data = None\<rparr>
      else
        (let bs = filter (\<lambda>b. Close b \<noteq> NaN) (bars d) in
         if ''Volume'' \<notin> set (col_names d) then
           \<lparr>passed = False, reason = Tag ''no-volume'', data = None\<rparr>
         else
           (let h = with_averages bs in
            if length bs < 10 then
              \<lparr>passed = False, reason = Tag ''short-history'', data = Some h\<rparr>
            else
              (let c = evaluate_conditions h
               in \<lparr>passed = all_conditions c, reason = Conditions c, data = Some h\<rparr>))))"

definition is_strong_stock ::
  "(ustr \<Rightarrow> py_error + frame option) \<Rightarrow> ustr \<Rightarrow> ustr \<Rightarrow> verdict" where
  "is_strong_stock download symbol_plain nm =
     (case download (symbol_plain @ u ''.TW'') of
        Inl e \<Rightarrow> \<lparr>passed = False, reason = ErrorTag e, data = None\<rparr>
      | Inr None \<Rightarrow> \<lparr>passed = False, reason = Tag ''no-data'', data = None\<rparr>
      | Inr (Some d) \<Rightarrow> evaluate_frame d)"

section \<open>Fetching the table and running\<close>

text \<open>
  A decoded JSON payload. An object keeps its members in order; its keys are distinct,
  so \<open>map_of\<close> is the lookup.
\<close>

datatype json =
  JNull | JBool bool | JNumber pyfloat | JString ustr | JList "json list"
  | JDict "(ustr \<times> json) list"

datatype fetch_failure = FetchFailed py_error | NoTable

text \<open>
  \<open>isinstance(v, dict) and "data" in v and "fields" in v\<close>, then
  \<open>pd.DataFrame(v["data"], columns=v["fields"])\<close> inside a \<open>try\<close> whose \<open>except\<close>
  passes. \<open>DataFrame\<close> is the constructor: \<open>None\<close> when it raises.
\<close>

definition table_of :: "(json \<Rightarrow> json \<Rightarrow> raw_table option) \<Rightarrow> json \<Rightarrow> raw_table option" where
  "table_of DataFrame v =
     (case v of
        JDict kvs \<Rightarrow>
          (case (map_of kvs (u ''data''), map_of kvs (u ''fields'')) of
             (Some d, Some f) \<Rightarrow> DataFrame d f
           | _ \<Rightarrow> None)
      | _ \<Rightarrow> None)"

text \<open>The loop over \<open>js.items()\<close>: the first member that yields a table.\<close>

fun search_nested ::
  "(json \<Rightarrow> json \<Rightarrow> raw_table option) \<Rightarrow> (ustr \<times> json) list \<Rightarrow> raw_table option" where
  "search_nested DataFrame [] = None"
| "search_nested DataFrame ((k, v) # kvs) =
     (case table_of DataFrame v of
        Some df \<Rightarrow> Some df
      | None \<Rightarrow> search_nested DataFrame kvs)"

text \<open>
  \<open>fetch_twse_table\<close>. \<open>response\<close> is the outcome of the first \<open>try\<close> (request, status
  check, JSON decoding). The test of the top level asks whether the payload is a dict;
  the loop after it calls \<open>js.items()\<close> without asking, which raises \<open>AttributeError\<close> on
  a payload that is not a dict.
\<close>

definition fetch_twse_table ::
  "(json \<Rightarrow> json \<Rightarrow> raw_table option) \<Rightarrow> py_error + json \<Rightarrow>
   (fetch_failure + raw_table) outcome" where
  "fetch_twse_table DataFrame response =
     (case response of
        Inl e \<Rightarrow> Returned (Inl (FetchFailed e))
      | Inr js \<Rightarrow>
          (case table_of DataFrame js of
             Some df \<Rightarrow> Returned (Inr df)
           | None \<Rightarrow>
               (case js of
                  JDict kvs \<Rightarrow>
                    (case search_nested DataFrame kvs of
                       Some df \<Rightarrow> Returned (Inr df)
                     | None \<Rightarrow> Returned (Inl NoTable))
                | _ \<Rightarrow> Raised AttributeError)))"

text \<open>
  What a run meets outside the program: the snapshot response, the DataFrame
  constructor, numpy's sorting kernel, the two CSV writes (the exception raised, if any), the
  history provider and \<open>plot_chart\<close>, which catches its own exceptions and returns the
  file name or nothing.
\<close>

record world =
  response :: "py_error + json"
  DataFrame :: "json \<Rightarrow> json \<Rightarrow> raw_table option"
  np_argsort :: "pyfloat list \<Rightarrow> nat list"
  write_top_csv :: "instrument list \<Rightarrow> py_error option"
  download :: "ustr \<Rightarrow> py_error + frame option"
  plot_chart :: "ustr \<Rightarrow> ustr \<Rightarrow> history \<Rightarrow> ustr option"
  write_strong_csv :: "(ustr \<times> ustr \<times> reason) list \<Rightarrow> py_error option"

text \<open>
  The messages handed to \<open>telegram_send_text\<close> and \<open>telegram_send_photo\<close>, which never
  raise and whose results \<open>main\<close> ignores.
\<close>

datatype notification =
  Started | FetchError fetch_failure | ParseError build_failure | UniverseSize nat
  | NoStrong | StrongList "(ustr \<times> ustr) list" | Photo ustr

text \<open>One turn of the loop of \<open>main\<close> over the universe: the lists \<open>strong\<close> and \<open>charts\<close>.\<close>

definition evaluate_row ::
  "world \<Rightarrow> (ustr \<times> ustr \<times> reason) list \<times> ustr list \<Rightarrow> instrument \<Rightarrow>
   (ustr \<times> ustr \<times> reason) list \<times> ustr list" where
  "evaluate_row w acc row =
     (case acc of
        (strong, charts) \<Rightarrow>
          (let c = py_strip (code row);
               nm = py_strip (name row);
               v = is_strong_stock (download w) c nm
           in if passed v then
                (strong @ [(c, nm, reason v)],
                 (case data v of
                    None \<Rightarrow> charts
                  | Some hist \<Rightarrow>
                      (case plot_chart w c nm hist of
                         None \<Rightarrow> charts
                       | Some p \<Rightarrow> if p \<noteq> [] then charts @ [p] else charts)))
              else (strong, charts)))"

definition evaluate_all ::
  "world \<Rightarrow> instrument list \<Rightarrow> (ustr \<times> ustr \<times> reason) list \<times> ustr list" where
  "evaluate_all w df_top = foldl (evaluate_row w) ([], []) df_top"

text \<open>
  \<open>main\<close>: the notifications sent, and whether \<open>main\<close> returned or an exception left it.
  Neither call of \<open>to_csv\<close> is inside a \<open>try\<close>.
\<close>

definition main :: "world \<Rightarrow> notification list \<times> unit outcome" where
  "main w =
     (case fetch_twse_table (DataFrame w) (response w) of
        Raised e \<Rightarrow> ([Started], Raised e)
      | Returned (Inl err) \<Rightarrow> ([Started, FetchError err], Returned ())
      | Returned (Inr df_raw) \<Rightarrow>
          (case extract_top300 (np_argsort w) (write_top_csv w) df_raw of
             Raised e \<Rightarrow> ([Started], Raised e)
           | Returned (Inl err2) \<Rightarrow> ([Started, ParseError err2], Returned ())
           | Returned (Inr df_top) \<Rightarrow>
               (case evaluate_all w df_top of
                  (strong, charts) \<Rightarrow>
                    (if strong = [] then
                       ([Started, UniverseSize (length df_top), NoStrong], Returned ())
                     else
                       ([Started, UniverseSize (length df_top),
                         StrongList (map (\<lambda>s. (fst s, fst (snd s))) strong)] @
                        map Photo (take 5 charts),
                        (case write_strong_csv w strong of
                           Some e \<Rightarrow> Raised e
                         | None \<Rightarrow> Returned ()))))))"

section \<open>Sample input\<close>

text \<open>
  A ten-bar history on which all five conditions hold: the close is 10 on nine days and
  11 on the last, the volume is 10 on seven days and then 20, 100 and 110.
\<close>

definition rising_bars :: "bar list" where
  "rising_bars =
     replicate 7 \<lparr>Close = Num 10, Volume = Num 10\<rparr> @
     [\<lparr>Close = Num 10, Volume = Num 20\<rparr>, \<lparr>Close = Num 10, Volume = Num 100\<rparr>,
      \<lparr>Close = Num 11, Volume = Num 110\<rparr>]"

definition rising_frame :: frame where
  "rising_frame = \<lparr>col_names = [''Close'', ''Volume''], bars = rising_bars\<rparr>"

text \<open>
  Two runs on a one-row table whose only instrument has the rising history. In the first
  the write of the universe snapshot raises \<open>OSError\<close>; in the second that write
  succeeds and the write of the strong-stocks file raises \<open>OSError\<close>.
\<close>

definition one_row_table :: raw_table where
  "one_row_table =
     \<lparr>columns = std_columns,
      rows = [[u ''1101'', u '' <b>Cement</b> '', u ''1,234,567'', u ''45.6'']]\<rparr>"

definition snapshot_write_fails :: world where
  "snapshot_write_fails =
     \<lparr>response = Inr (JDict [(u ''data'', JList []), (u ''fields'', JList [])]),
      DataFrame = (\<lambda>d f. Some one_row_table),
      np_argsort = insertion_argsort,
      write_top_csv = (\<lambda>top. Some OSError),
      download = (\<lambda>s. Inr (Some rising_frame)),
      plot_chart = (\<lambda>c nm hist. None),
      write_strong_csv = (\<lambda>strong. None)\<rparr>"

definition report_write_fails :: world where
  "report_write_fails =
     \<lparr>response = Inr (JDict [(u ''data'', JList []), (u ''fields'', JList [])]),
      DataFrame = (\<lambda>d f. Some one_row_table),
      np_argsort = insertion_argsort,
      write_top_csv = (\<lambda>top. None),
      download = (\<lambda>s. Inr (Some rising_frame)),
      plot_chart = (\<lambda>c nm hist. None),
      write_strong_csv = (\<lambda>strong. Some OSError)\<rparr>"

section \<open>Properties\<close>

subsection \<open>Evaluation on concrete input\<close>

lemmas parse_defs = clean_cell_def u_def remove_commas_def py_strip_def py_isspace_def
  py_float_def split_sign_def ascii_lower_def floatnumber_def number_def digitpart_def
  digit_val_def exponent_def digits_value_def scale10_def overflows_def float_strip_def
  float_isspace_def

lemma col_map_std:
  "col_map_of std_columns =
     [(KCode, label_code), (KName, label_name), (KVol, label_vol), (KClose, label_close)]"
  by (simp add: std_columns_def col_map_of_def col_step_def label_code_def label_name_def
      label_vol_def label_close_def)

lemma strip_std: "map py_strip std_columns = std_columns"
  by (simp add: std_columns_def label_code_def label_name_def label_vol_def label_close_def
      py_strip_def py_isspace_def)

lemma positions_std:
  "positions std_columns label_code = [0]" "positions std_columns label_name = [1]"
  "positions std_columns label_vol = [2]" "positions std_columns label_close = [3]"
  by (simp_all add: std_columns_def positions_def label_code_def label_name_def
      label_vol_def label_close_def upt_rec)

lemma extract_top300_std:
  "extract_top300 argsort csv \<lparr>columns = std_columns, rows = rs\<rparr> =
     (case csv (map derive_lots (take 300 (sort_values argsort (filter (\<lambda>r. \<not> excluded (name r))
         (map (normalise_row 0 1 2 3) rs))))) of
        Some e \<Rightarrow> Raised e
      | None \<Rightarrow> Returned (Inr (map derive_lots (take 300 (sort_values argsort
         (filter (\<lambda>r. \<not> excluded (name r)) (map (normalise_row 0 1 2 3) rs)))))))"
  unfolding extract_top300_def Let_def
  by (simp add: col_map_std strip_std positions_std split: option.split)

subsection \<open>Insertion sort keeps the promise of \<open>argsort\<close>\<close>

lemma np_less_asym: "np_less a b \<Longrightarrow> \<not> np_less b a"
  by (cases a; cases b) (auto simp: np_less_def)

lemma np_less_trans: "\<not> np_less b a \<Longrightarrow> \<not> np_less c b \<Longrightarrow> \<not> np_less c a"
  by (cases a; cases b; cases c) (auto simp: np_less_def)

lemma mset_insert_position: "mset (insert_position vs i js) = add_mset i (mset js)"
  by (induction js) auto

lemma set_insert_position: "set (insert_position vs i js) = insert i (set js)"
  by (induction js) auto

lemma sorted_insert_position:
  assumes "sorted_wrt (\<lambda>i j. \<not> np_less (vs ! j) (vs ! i)) js"
  shows "sorted_wrt (\<lambda>i j. \<not> np_less (vs ! j) (vs ! i)) (insert_position vs i js)"
  using assms
proof (induction js)
  case Nil
  then show ?case by simp
next
  case (Cons j js)
  show ?case
  proof (cases "np_less (vs ! j) (vs ! i)")
    case False
    have "\<forall>k \<in> set js. \<not> np_less (vs ! k) (vs ! i)"
    proof
      fix k assume "k \<in> set js"
      with Cons.prems have "\<not> np_less (vs ! k) (vs ! j)" by simp
      with False show "\<not> np_less (vs ! k) (vs ! i)"
        using np_less_trans by blast
    qed
    with False Cons.prems show ?thesis by simp
  next
    case True
    then have "\<not> np_less (vs ! i) (vs ! j)"
      using np_less_asym by blast
    with True Cons show ?thesis
      by (simp add: set_insert_position)
  qed
qed

lemma insertion_argsort_contract: "argsort_contract insertion_argsort"
proof -
  have perm: "mset (foldr (insert_position vs) ks []) = mset ks" for vs ks
    by (induction ks) (simp_all add: mset_insert_position)
  have srt: "sorted_wrt (\<lambda>i j. \<not> np_less (vs ! j) (vs ! i)) (foldr (insert_position vs) ks [])"
    for vs ks
    by (induction ks) (simp_all add: sorted_insert_position)
  show ?thesis
    unfolding argsort_contract_def insertion_argsort_def
    using perm srt by blast
qed

subsection \<open>The order that \<open>sort_values\<close> yields\<close>




lemma nargsort_in_range:
  assumes "argsort_contract argsort"
  shows "set (nargsort argsort items) \<subseteq> {0..<length items}"
proof -
  define ri where "ri = rev (filter (\<lambda>i. items ! i \<noteq> NaN) [0..<length items])"
  define perm where "perm = argsort (map (\<lambda>i. items ! i) ri)"
  from assms have "mset perm = mset [0..<length (map (\<lambda>i. items ! i) ri)]"
    by (simp add: argsort_contract_def perm_def)
  then have "set perm = set [0..<length ri]"
    by (metis length_map set_mset_mset)
  then have "\<forall>k \<in> set perm. ri ! k \<in> set ri" by simp
  moreover have "set ri \<subseteq> {0..<length items}" by (auto simp: ri_def)
  ultimately have "set (map (\<lambda>k. ri ! k) perm) \<subseteq> {0..<length items}" by auto
  then show ?thesis
    by (auto simp: nargsort_def Let_def ri_def[symmetric] perm_def[symmetric])
qed





lemma sort_values_set:
  assumes "argsort_contract argsort"
  shows "set (sort_values argsort df) \<subseteq> set df"
proof -
  have "\<forall>i \<in> set (nargsort argsort (map volume_shares df)). i < length df"
    using nargsort_in_range[OF assms, of "map volume_shares df"] by auto
  then show ?thesis
    by (auto simp: sort_values_def)
qed

subsection \<open>The columns that the builder reads\<close>

lemma foldl_last_match:
  assumes step: "\<And>m c. g (f m c) = (if P c then Some c else g m)"
  shows "g (foldl f m cs) = (case filter P cs of [] \<Rightarrow> g m | x # xs \<Rightarrow> Some (last (x # xs)))"
proof (induction cs arbitrary: m)
  case Nil
  then show ?case by simp
next
  case (Cons c cs)
  show ?case
    by (simp add: Cons.IH step split: list.splits)
qed

lemma col_step_lookup:
  "map_of (col_step m c) KCode = (if contains label_code c then Some c else map_of m KCode)"
  "map_of (col_step m c) KName = (if contains label_name c then Some c else map_of m KName)"
  "map_of (col_step m c) KVol = (if contains label_vol c then Some c else map_of m KVol)"
  "map_of (col_step m c) KClose = (if contains label_close c then Some c else map_of m KClose)"
  by (simp_all add: col_step_def Let_def update_conv')

lemma col_map_lookup:
  "map_of (col_map_of cols) KCode =
     (case filter (contains label_code) cols of [] \<Rightarrow> None | x # xs \<Rightarrow> Some (last (x # xs)))"
  "map_of (col_map_of cols) KName =
     (case filter (contains label_name) cols of [] \<Rightarrow> None | x # xs \<Rightarrow> Some (last (x # xs)))"
  "map_of (col_map_of cols) KVol =
     (case filter (contains label_vol) cols of [] \<Rightarrow> None | x # xs \<Rightarrow> Some (last (x # xs)))"
  "map_of (col_map_of cols) KClose =
     (case filter (contains label_close) cols of [] \<Rightarrow> None | x # xs \<Rightarrow> Some (last (x # xs)))"
  unfolding col_map_of_def
  using foldl_last_match[of "\<lambda>m. map_of m KCode" col_step "contains label_code" "[]" cols]
    foldl_last_match[of "\<lambda>m. map_of m KName" col_step "contains label_name" "[]" cols]
    foldl_last_match[of "\<lambda>m. map_of m KVol" col_step "contains label_vol" "[]" cols]
    foldl_last_match[of "\<lambda>m. map_of m KClose" col_step "contains label_close" "[]" cols]
  by (simp_all add: col_step_lookup split: list.splits)

lemma last_filter_position:
  assumes "filter P cs = x # xs"
  shows "\<exists>j < length cs. cs ! j = last (x # xs) \<and> P (cs ! j) \<and>
           (\<forall>j'. j < j' \<and> j' < length cs \<longrightarrow> \<not> P (cs ! j'))"
  using assms
proof (induction cs arbitrary: x xs rule: rev_induct)
  case Nil
  then show ?case by simp
next
  case (snoc c cs)
  show ?case
  proof (cases "P c")
    case True
    then have "last (x # xs) = c"
      using snoc.prems by (metis filter.simps(1,2) filter_append last_snoc)
    with True have "(cs @ [c]) ! length cs = last (x # xs) \<and> P ((cs @ [c]) ! length cs) \<and>
        (\<forall>j'. length cs < j' \<and> j' < length (cs @ [c]) \<longrightarrow> \<not> P ((cs @ [c]) ! j'))"
      by auto
    moreover have "length cs < length (cs @ [c])" by simp
    ultimately show ?thesis by blast
  next
    case False
    with snoc.prems have f: "filter P cs = x # xs" by simp
    from snoc.IH[OF f] obtain j where j: "j < length cs" "cs ! j = last (x # xs)" "P (cs ! j)"
      "\<forall>j'. j < j' \<and> j' < length cs \<longrightarrow> \<not> P (cs ! j')" by blast
    have "\<forall>j'. j < j' \<and> j' < length (cs @ [c]) \<longrightarrow> \<not> P ((cs @ [c]) ! j')"
    proof (intro allI impI)
      fix j' assume a: "j < j' \<and> j' < length (cs @ [c])"
      show "\<not> P ((cs @ [c]) ! j')"
      proof (cases "j' < length cs")
        case True
        with a j(4) show ?thesis by (simp add: nth_append)
      next
        case False
        with a have "j' = length cs" by simp
        with \<open>\<not> P c\<close> show ?thesis by simp
      qed
    qed
    moreover have "j < length (cs @ [c])" "(cs @ [c]) ! j = last (x # xs)" "P ((cs @ [c]) ! j)"
      using j(1,2,3) by (simp_all add: nth_append)
    ultimately show ?thesis by blast
  qed
qed

lemma positions_member: "i \<in> set (positions cols l) \<longleftrightarrow> i < length cols \<and> cols ! i = l"
  by (auto simp: positions_def)

lemma positions_nonempty: "l \<in> set cols \<Longrightarrow> positions cols l \<noteq> []"
proof -
  assume "l \<in> set cols"
  then obtain i where "i < length cols" "cols ! i = l" by (auto simp: in_set_conv_nth)
  then have "i \<in> set (positions cols l)" by (simp add: positions_member)
  then show ?thesis by auto
qed

lemma four_singletons:
  assumes "a @ b @ c @ d = [w, x, y, z]" and "a \<noteq> []" and "b \<noteq> []" and "c \<noteq> []" and "d \<noteq> []"
  shows "a = [w] \<and> b = [x] \<and> c = [y] \<and> d = [z]"
proof -
  obtain a1 a' where a: "a = a1 # a'" using assms(2) by (cases a) auto
  obtain b1 b' where b: "b = b1 # b'" using assms(3) by (cases b) auto
  obtain c1 c' where c: "c = c1 # c'" using assms(4) by (cases c) auto
  obtain d1 d' where d: "d = d1 # d'" using assms(5) by (cases d) auto
  from assms(1) have "length (a @ b @ c @ d) = length [w, x, y, z]" by simp
  then have "length a' + length b' + length c' + length d' = 0"
    unfolding a b c d by simp
  then have "a' = [] \<and> b' = [] \<and> c' = [] \<and> d' = []" by simp
  with assms(1) show ?thesis unfolding a b c d by simp
qed

lemma extract_top300_columns:
  assumes "extract_top300 argsort csv df = Returned (Inr out)"
  shows "\<exists>ic inm iv icl.
           out = map derive_lots (take 300 (sort_values argsort (filter (\<lambda>r. \<not> excluded (name r))
                   (map (normalise_row ic inm iv icl) (rows df))))) \<and>
           ic < length (columns df) \<and> contains label_code (py_strip (columns df ! ic)) \<and>
           inm < length (columns df) \<and> contains label_name (py_strip (columns df ! inm)) \<and>
           iv < length (columns df) \<and> contains label_vol (py_strip (columns df ! iv)) \<and>
           (\<forall>j. iv < j \<and> j < length (columns df) \<longrightarrow>
                \<not> contains label_vol (py_strip (columns df ! j)))"
proof -
  define cols where "cols = map py_strip (columns df)"
  from assms obtain lc lnm lv lcl ic inm iv icl where
    mc: "map_of (col_map_of cols) KCode = Some lc" and
    mn: "map_of (col_map_of cols) KName = Some lnm" and
    mv: "map_of (col_map_of cols) KVol = Some lv" and
    ml: "map_of (col_map_of cols) KClose = Some lcl" and
    pos: "positions cols lc @ positions cols lnm @ positions cols lv @ positions cols lcl
            = [ic, inm, iv, icl]" and
    out: "out = map derive_lots (take 300 (sort_values argsort (filter (\<lambda>r. \<not> excluded (name r))
                   (map (normalise_row ic inm iv icl) (rows df)))))"
    unfolding extract_top300_def Let_def cols_def[symmetric]
    by (auto split: option.splits list.splits)
  from mc obtain x xs where fc: "filter (contains label_code) cols = x # xs" "lc = last (x # xs)"
    by (auto simp: col_map_lookup split: list.splits)
  from mn obtain y ys where fn: "filter (contains label_name) cols = y # ys" "lnm = last (y # ys)"
    by (auto simp: col_map_lookup split: list.splits)
  from mv obtain z zs where fv: "filter (contains label_vol) cols = z # zs" "lv = last (z # zs)"
    by (auto simp: col_map_lookup split: list.splits)
  from ml obtain t ts where fl: "filter (contains label_close) cols = t # ts" "lcl = last (t # ts)"
    by (auto simp: col_map_lookup split: list.splits)
  from last_filter_position[OF fc(1)] fc(2) obtain jc where
    jc: "jc < length cols" "cols ! jc = lc" "contains label_code (cols ! jc)" by blast
  from last_filter_position[OF fn(1)] fn(2) obtain jn where
    jn: "jn < length cols" "cols ! jn = lnm" "contains label_name (cols ! jn)" by blast
  from last_filter_position[OF fv(1)] fv(2) obtain jv where
    jv: "jv < length cols" "cols ! jv = lv" "contains label_vol (cols ! jv)"
      "\<forall>j'. jv < j' \<and> j' < length cols \<longrightarrow> \<not> contains label_vol (cols ! j')" by blast
  from last_filter_position[OF fl(1)] fl(2) obtain jl where
    jl: "jl < length cols" "cols ! jl = lcl" by blast
  have ne: "positions cols lc \<noteq> []" "positions cols lnm \<noteq> []" "positions cols lv \<noteq> []"
    "positions cols lcl \<noteq> []"
    using jc(1,2) jn(1,2) jv(1,2) jl(1,2) by (auto intro!: positions_nonempty)
  from four_singletons[OF pos ne] have
    p: "positions cols lc = [ic]" "positions cols lnm = [inm]" "positions cols lv = [iv]"
    by auto
  have "jc \<in> set (positions cols lc)" "jn \<in> set (positions cols lnm)"
    "jv \<in> set (positions cols lv)"
    using jc(1,2) jn(1,2) jv(1,2) by (simp_all add: positions_member)
  then have eq: "jc = ic" "jn = inm" "jv = iv" by (simp_all add: p)
  have len: "length cols = length (columns df)" by (simp add: cols_def)
  have nth: "cols ! j = py_strip (columns df ! j)" if "j < length (columns df)" for j
    using that by (simp add: cols_def)
  from jc jn jv eq len nth have
    "ic < length (columns df)" "contains label_code (py_strip (columns df ! ic))"
    "inm < length (columns df)" "contains label_name (py_strip (columns df ! inm))"
    "iv < length (columns df)" "contains label_vol (py_strip (columns df ! iv))"
    "\<forall>j. iv < j \<and> j < length (columns df) \<longrightarrow> \<not> contains label_vol (py_strip (columns df ! j))"
    by auto
  with out show ?thesis by blast
qed

lemma extract_top300_shape:
  assumes "extract_top300 argsort csv df = Returned (Inr out)"
  shows "\<exists>ic inm iv icl. out = map derive_lots (take 300 (sort_values argsort
            (filter (\<lambda>r. \<not> excluded (name r)) (map (normalise_row ic inm iv icl) (rows df)))))"
  using extract_top300_columns[OF assms] by blast

subsection \<open>Ties\<close>





subsection \<open>Sample tables\<close>

lemma rint_close: "\<bar>of_int (rint y) - y\<bar> \<le> 1 / 2"
  unfolding rint_def Let_def by (auto; linarith)

lemma sample_row_cement:
  "normalise_row 0 (Suc 0) 2 3 [u ''1101'', u '' <b>Cement</b> '', u ''1,234,567'', u ''45.6'']
   = \<lparr>code = u ''1101'', name = u ''Cement'', volume_shares = Num 1234567,
      close_price = Num (456 / 10)\<rparr>"
  by (simp add: normalise_row_def cell_def parse_defs to_num_def to_price_def)

lemma sample_row_etf:
  "normalise_row 0 (Suc 0) 2 3 [u ''0050'', u ''Top ETF'', u ''9,000,000'', u ''150'']
   = \<lparr>code = u ''0050'', name = u ''Top ETF'', volume_shares = Num 9000000,
      close_price = Num 150\<rparr>"
  by (simp add: normalise_row_def cell_def parse_defs to_num_def to_price_def)

lemma sample_row_steel:
  "normalise_row 0 (Suc 0) 2 3 [u ''2002'', u ''Steel'', u ''--'', u ''--'']
   = \<lparr>code = u ''2002'', name = u ''Steel'', volume_shares = Num 0, close_price = Num 0\<rparr>"
  by (simp add: normalise_row_def cell_def parse_defs to_num_def to_price_def)

lemma sample_excluded: "\<not> excluded (u ''Cement'')" "excluded (u ''Top ETF'')"
  "\<not> excluded (u ''Steel'')"
  by (simp_all add: excluded_def exclude_name_keywords_def u_def)

lemma sort_values_one: "sort_values insertion_argsort [r] = [r]"
  by (cases "volume_shares r = NaN")
     (simp_all add: sort_values_def nargsort_def insertion_argsort_def)

lemma sort_values_two_numbers:
  "sort_values insertion_argsort
     [\<lparr>code = c1, name = n1, volume_shares = Num x, close_price = p1\<rparr>,
      \<lparr>code = c2, name = n2, volume_shares = Num y, close_price = p2\<rparr>]
   = (if x < y
      then [\<lparr>code = c2, name = n2, volume_shares = Num y, close_price = p2\<rparr>,
            \<lparr>code = c1, name = n1, volume_shares = Num x, close_price = p1\<rparr>]
      else [\<lparr>code = c1, name = n1, volume_shares = Num x, close_price = p1\<rparr>,
            \<lparr>code = c2, name = n2, volume_shares = Num y, close_price = p2\<rparr>])"
  by (simp add: sort_values_def nargsort_def insertion_argsort_def np_less_def
      numeral_2_eq_2)


lemma sample_universe:
  "extract_top300 insertion_argsort (\<lambda>t. None)
     \<lparr>columns = std_columns,
      rows = [[u ''0050'', u ''Top ETF'', u ''9,000,000'', u ''150''],
              [u ''1101'', u '' <b>Cement</b> '', u ''1,234,567'', u ''45.6'']]\<rparr>
   = Returned (Inr [\<lparr>code = u ''1101'', name = u ''Cement'', volume_shares = Num 1234567,
        close_price = Num (456 / 10), volume_lots = Num (1234567 / 1000)\<rparr>])"
  by (simp add: extract_top300_std sample_row_cement sample_row_etf sample_excluded
      sort_values_one derive_lots_def rint_def)

lemma sample_universe3:
  "extract_top300 insertion_argsort (\<lambda>t. None)
     \<lparr>columns = std_columns,
      rows = [[u ''2002'', u ''Steel'', u ''--'', u ''--''],
              [u ''0050'', u ''Top ETF'', u ''9,000,000'', u ''150''],
              [u ''1101'', u '' <b>Cement</b> '', u ''1,234,567'', u ''45.6'']]\<rparr>
   = Returned (Inr [\<lparr>code = u ''1101'', name = u ''Cement'', volume_shares = Num 1234567,
        close_price = Num (456 / 10), volume_lots = Num (1234567 / 1000)\<rparr>,
      \<lparr>code = u ''2002'', name = u ''Steel'', volume_shares = Num 0,
        close_price = Num 0, volume_lots = Num 0\<rparr>])"
  by (simp add: extract_top300_std sample_row_cement sample_row_etf sample_row_steel
      sample_excluded sort_values_two_numbers derive_lots_def rint_def)

text \<open>
  C8. Every instrument of the universe carries \<open>volume_lots\<close> equal to its
  \<open>volume_shares\<close> divided by 1000 and rounded to three decimals; for a finite volume
  that is a multiple of one thousandth, at most half a thousandth away from the
  quotient.
\<close>

theorem volume_lots_rounded:
  assumes "extract_top300 srt csv df = Returned (Inr out)" and "i \<in> set out"
  shows "volume_lots i = fl_round 3 (fl_div (volume_shares i) (Num 1000)) \<and>
         (\<forall>x. volume_shares i = Num x \<longrightarrow>
            (\<exists>k::int. volume_lots i = Num (of_int k / 1000) \<and>
                       \<bar>of_int k / 1000 - x / 1000\<bar> \<le> 1 / 2000))"
proof -
  from extract_top300_shape[OF assms(1)] assms(2)
  obtain r where i: "i = derive_lots r" by auto
  have first: "volume_lots i = fl_round 3 (fl_div (volume_shares i) (Num 1000))"
    by (simp add: i derive_lots_def)
  have second: "\<exists>k::int. volume_lots i = Num (of_int k / 1000) \<and>
                  \<bar>of_int k / 1000 - x / 1000\<bar> \<le> 1 / 2000"
    if "volume_shares i = Num x" for x
  proof -
    have "volume_lots i = Num (of_int (rint (x / 1000 * 10 ^ 3)) / 10 ^ 3)"
      using first that by simp
    then have lots: "volume_lots i = Num (of_int (rint x) / 1000)" by simp
    have "\<bar>of_int (rint x) - x\<bar> \<le> 1 / 2" by (rule rint_close)
    then have "\<bar>of_int (rint x) / 1000 - x / 1000\<bar> \<le> 1 / 2000"
      by (simp add: abs_le_iff field_simps)
    with lots show ?thesis by blast
  qed
  from first second show ?thesis by blast
qed

theorem volume_lots_rounded_witness:
  "volume_lots \<lparr>code = u ''1101'', name = u ''Cement'', volume_shares = Num 1234567,
        close_price = Num (456 / 10), volume_lots = Num (1234567 / 1000)\<rparr>
   = fl_round 3 (fl_div (Num 1234567) (Num 1000)) \<and>
   (\<exists>k::int. Num (1234567 / 1000) = Num (of_int k / 1000) \<and>
      \<bar>of_int k / 1000 - 1234567 / 1000\<bar> \<le> (1 / 2000 :: real))"
proof -
  let ?i = "\<lparr>code = u ''1101'', name = u ''Cement'', volume_shares = Num 1234567,
        close_price = Num (456 / 10), volume_lots = Num (1234567 / 1000)\<rparr>"
  have mem: "?i \<in> set [?i]" by simp
  from volume_lots_rounded[OF sample_universe mem]
  show ?thesis by simp
qed

subsection \<open>The universe\<close>








subsection \<open>Cell parsing\<close>

lemma set_py_strip: "set (py_strip s) \<subseteq> set s"
proof -
  have "set (dropWhile py_isspace (rev (dropWhile py_isspace s))) \<subseteq> set (dropWhile py_isspace s)"
    using set_dropWhileD[of _ py_isspace "rev (dropWhile py_isspace s)"] by auto
  also have "\<dots> \<subseteq> set s"
    using set_dropWhileD[of _ py_isspace s] by auto
  finally show ?thesis by (simp add: py_strip_def)
qed

lemma set_float_strip: "set (float_strip s) \<subseteq> set s"
proof -
  have "set (dropWhile float_isspace (rev (dropWhile float_isspace s)))
          \<subseteq> set (dropWhile float_isspace s)"
    using set_dropWhileD[of _ float_isspace "rev (dropWhile float_isspace s)"] by auto
  also have "\<dots> \<subseteq> set s"
    using set_dropWhileD[of _ float_isspace s] by auto
  finally show ?thesis by (simp add: float_strip_def)
qed

lemma set_replace_dashes: "set (replace_dashes s) \<subseteq> insert 48 (set s)"
  by (induction s rule: replace_dashes.induct) auto

lemma clean_cell_no_minus: "45 \<notin> set x \<Longrightarrow> 45 \<notin> set (clean_cell x)"
proof -
  assume "45 \<notin> set x"
  then have "45 \<notin> set (remove_commas x)" by (simp add: remove_commas_def)
  then have "45 \<notin> set (replace_dashes (remove_commas x))"
    using set_replace_dashes[of "remove_commas x"] by auto
  then show ?thesis
    using set_py_strip[of "replace_dashes (remove_commas x)"] by (auto simp: clean_cell_def)
qed

lemma scale10_nonneg: "0 \<le> m \<Longrightarrow> 0 \<le> scale10 m k"
  by (simp add: scale10_def)

lemma floatnumber_nonneg: "floatnumber s = Some v \<Longrightarrow> 0 \<le> v"
  by (auto simp: floatnumber_def scale10_nonneg split: option.splits prod.splits)

lemma split_sign_no_minus: "45 \<notin> set s \<Longrightarrow> fst (split_sign s) = False"
  by (auto simp: split_sign_def split: list.splits)

lemma py_float_no_minus:
  assumes "py_float s = Some v" and "45 \<notin> set s"
  shows "v = NaN \<or> fl_le (Num 0) v"
proof -
  obtain neg body where sp: "split_sign (float_strip s) = (neg, body)"
    by (cases "split_sign (float_strip s)")
  from assms(2) set_float_strip[of s] have "45 \<notin> set (float_strip s)" by auto
  from split_sign_no_minus[OF this] sp have neg: "neg = False" by simp
  from assms(1) show ?thesis
    unfolding py_float_def sp neg
    by (auto simp: Let_def floatnumber_nonneg split: if_splits option.splits)
qed

lemma to_num_no_minus: "45 \<notin> set x \<Longrightarrow> to_num x = NaN \<or> fl_le (Num 0) (to_num x)"
  using py_float_no_minus[OF _ clean_cell_no_minus, of x]
  by (auto simp: to_num_def split: option.splits)

lemma to_num_placeholder: "to_num (u ''--'') = Num 0"
  by (simp add: to_num_def parse_defs)

text \<open>
  C7 (amended). Volume parsing always yields a value; a cell whose cleaned text \<open>float\<close>
  rejects yields \<open>0.0\<close>, and so does the placeholder \<open>--\<close>. Every instrument of the
  universe comes from a row of the table: its code and name are read from columns whose
  labels hold the code and the name label, and its \<open>volume_shares\<close> is the parsed value
  of that row's cell in the last column whose label holds the volume label. It is NaN
  or at least zero when that cell holds no minus sign.
\<close>

theorem volume_parsing_total:
  assumes "argsort_contract argsort" and "extract_top300 argsort csv df = Returned (Inr out)"
    and "i \<in> set out"
  shows "(\<forall>x. py_float (clean_cell x) = None \<longrightarrow> to_num x = Num 0) \<and>
         to_num (u ''--'') = Num 0 \<and>
         (\<exists>ic inm iv.
            ic < length (columns df) \<and> contains label_code (py_strip (columns df ! ic)) \<and>
            inm < length (columns df) \<and> contains label_name (py_strip (columns df ! inm)) \<and>
            iv < length (columns df) \<and> contains label_vol (py_strip (columns df ! iv)) \<and>
            (\<forall>j. iv < j \<and> j < length (columns df) \<longrightarrow>
                 \<not> contains label_vol (py_strip (columns df ! j))) \<and>
            (\<exists>r \<in> set (rows df).
               code i = py_strip (cell r ic) \<and>
               name i = py_strip (strip_tags False (cell r inm)) \<and>
               volume_shares i = to_num (cell r iv) \<and>
               (45 \<notin> set (cell r iv) \<longrightarrow>
                  volume_shares i = NaN \<or> fl_le (Num 0) (volume_shares i))))"
proof -
  have malformed: "\<forall>x. py_float (clean_cell x) = None \<longrightarrow> to_num x = Num 0"
    by (simp add: to_num_def)
  from extract_top300_columns[OF assms(2)] obtain ic inm iv icl where
    out: "out = map derive_lots (take 300 (sort_values argsort (filter (\<lambda>r. \<not> excluded (name r))
            (map (normalise_row ic inm iv icl) (rows df)))))" and
    cols: "ic < length (columns df)" "contains label_code (py_strip (columns df ! ic))"
      "inm < length (columns df)" "contains label_name (py_strip (columns df ! inm))"
      "iv < length (columns df)" "contains label_vol (py_strip (columns df ! iv))"
      "\<forall>j. iv < j \<and> j < length (columns df) \<longrightarrow> \<not> contains label_vol (py_strip (columns df ! j))"
    by blast
  from assms(3) obtain n where n: "n \<in> set (take 300 (sort_values argsort
        (filter (\<lambda>r. \<not> excluded (name r)) (map (normalise_row ic inm iv icl) (rows df)))))"
    and i: "i = derive_lots n"
    by (auto simp: out)
  from n have "n \<in> set (sort_values argsort (filter (\<lambda>r. \<not> excluded (name r))
            (map (normalise_row ic inm iv icl) (rows df))))" by (rule in_set_takeD)
  then have "n \<in> set (map (normalise_row ic inm iv icl) (rows df))"
    using sort_values_set[OF assms(1)] by fastforce
  then obtain r where r: "r \<in> set (rows df)" and nr: "n = normalise_row ic inm iv icl r"
    by auto
  have v: "code i = py_strip (cell r ic)" "name i = py_strip (strip_tags False (cell r inm))"
    "volume_shares i = to_num (cell r iv)"
    by (simp_all add: i nr derive_lots_def normalise_row_def)
  have "45 \<notin> set (cell r iv) \<longrightarrow> volume_shares i = NaN \<or> fl_le (Num 0) (volume_shares i)"
    using to_num_no_minus[of "cell r iv"] by (simp add: v)
  with r v have "\<exists>r \<in> set (rows df).
               code i = py_strip (cell r ic) \<and>
               name i = py_strip (strip_tags False (cell r inm)) \<and>
               volume_shares i = to_num (cell r iv) \<and>
               (45 \<notin> set (cell r iv) \<longrightarrow>
                  volume_shares i = NaN \<or> fl_le (Num 0) (volume_shares i))"
    by blast
  with cols have "\<exists>ic inm iv.
            ic < length (columns df) \<and> contains label_code (py_strip (columns df ! ic)) \<and>
            inm < length (columns df) \<and> contains label_name (py_strip (columns df ! inm)) \<and>
            iv < length (columns df) \<and> contains label_vol (py_strip (columns df ! iv)) \<and>
            (\<forall>j. iv < j \<and> j < length (columns df) \<longrightarrow>
                 \<not> contains label_vol (py_strip (columns df ! j))) \<and>
            (\<exists>r \<in> set (rows df).
               code i = py_strip (cell r ic) \<and>
               name i = py_strip (strip_tags False (cell r inm)) \<and>
               volume_shares i = to_num (cell r iv) \<and>
               (45 \<notin> set (cell r iv) \<longrightarrow>
                  volume_shares i = NaN \<or> fl_le (Num 0) (volume_shares i)))"
    by blast
  with malformed to_num_placeholder show ?thesis by blast
qed

theorem volume_parsing_total_witness:
  "py_float (clean_cell (u ''n/a'')) = None \<and> to_num (u ''n/a'') = Num 0 \<and>
   to_num (u ''--'') = Num 0 \<and>
   (\<exists>ic inm iv.
      ic < length std_columns \<and> contains label_code (py_strip (std_columns ! ic)) \<and>
      inm < length std_columns \<and> contains label_name (py_strip (std_columns ! inm)) \<and>
      iv < length std_columns \<and> contains label_vol (py_strip (std_columns ! iv)) \<and>
      (\<exists>r \<in> set [[u ''2002'', u ''Steel'', u ''--'', u ''--''],
                   [u ''0050'', u ''Top ETF'', u ''9,000,000'', u ''150''],
                   [u ''1101'', u '' <b>Cement</b> '', u ''1,234,567'', u ''45.6'']].
         u ''2002'' = py_strip (cell r ic) \<and>
         u ''Steel'' = py_strip (strip_tags False (cell r inm)) \<and>
         Num 0 = to_num (cell r iv)))"
proof -
  let ?i = "\<lparr>code = u ''2002'', name = u ''Steel'', volume_shares = Num 0,
        close_price = Num 0, volume_lots = Num 0\<rparr>"
  have mem: "?i \<in> set [\<lparr>code = u ''1101'', name = u ''Cement'', volume_shares = Num 1234567,
        close_price = Num (456 / 10), volume_lots = Num (1234567 / 1000)\<rparr>, ?i]"
    by simp
  have rejected: "py_float (clean_cell (u ''n/a'')) = None"
    by (simp add: parse_defs)
  from volume_parsing_total[OF insertion_argsort_contract sample_universe3 mem] rejected
  show ?thesis by simp blast
qed

text \<open>
  C7 as stated fails: a volume cell \<open>-5\<close> is parsed as \<open>-5.0\<close> and the instrument is
  emitted with a negative \<open>volume_shares\<close>.
\<close>

theorem negative_volume_counterexample:
  "extract_top300 insertion_argsort (\<lambda>t. None)
     \<lparr>columns = std_columns, rows = [[u ''1101'', u ''Cement'', u ''-5'', u ''45.6'']]\<rparr>
   = Returned (Inr [\<lparr>code = u ''1101'', name = u ''Cement'', volume_shares = Num (- 5),
        close_price = Num (456 / 10), volume_lots = Num (- 5 / 1000)\<rparr>]) \<and>
   \<not> fl_ge (Num (- 5)) (Num 0)"
proof -
  have a: "normalise_row 0 (Suc 0) 2 3 [u ''1101'', u ''Cement'', u ''-5'', u ''45.6'']
      = \<lparr>code = u ''1101'', name = u ''Cement'', volume_shares = Num (- 5),
         close_price = Num (456 / 10)\<rparr>"
    by (simp add: normalise_row_def cell_def parse_defs to_num_def to_price_def)
  show ?thesis
    by (simp add: extract_top300_std a sample_excluded sort_values_one
        derive_lots_def rint_def fl_ge_def)
qed

text \<open>
  C3 (amended). A closing-price cell whose cleaned text (commas removed, \<open>--\<close> replaced
  by \<open>0\<close>, trimmed) \<open>float\<close> rejects is normalised to NaN, and a price of zero comes
  only from a cleaned text that \<open>float\<close> reads as zero; the \<open>ValueError\<close> never leaves
  \<open>to_price\<close>.
\<close>

theorem to_price_unparseable_nan:
  "(py_float (clean_cell x) = None \<longrightarrow> to_price x = NaN) \<and>
   (to_price x = Num 0 \<longrightarrow> py_float (clean_cell x) = Some (Num 0))"
  by (simp add: to_price_def split: option.splits)

theorem to_price_unparseable_nan_witness:
  "py_float (clean_cell (u ''n/a'')) = None \<and> to_price (u ''n/a'') = NaN"
  using to_price_unparseable_nan[of "u ''n/a''"]
  by (simp add: parse_defs)

text \<open>
  C3 as stated fails on the placeholder: \<open>--\<close> is replaced by \<open>0\<close> before parsing, so
  the price of a cell \<open>--\<close> is zero and not NaN.
\<close>

theorem to_price_placeholder_counterexample:
  "to_price (u ''--'') = Num 0 \<and> to_price (u ''--'') \<noteq> NaN"
  by (simp add: to_price_def parse_defs)

subsection \<open>The evaluator on the sample history\<close>

lemma rising_bars_explicit:
  "rising_bars =
     [\<lparr>Close = Num 10, Volume = Num 10\<rparr>, \<lparr>Close = Num 10, Volume = Num 10\<rparr>,
      \<lparr>Close = Num 10, Volume = Num 10\<rparr>, \<lparr>Close = Num 10, Volume = Num 10\<rparr>,
      \<lparr>Close = Num 10, Volume = Num 10\<rparr>, \<lparr>Close = Num 10, Volume = Num 10\<rparr>,
      \<lparr>Close = Num 10, Volume = Num 10\<rparr>, \<lparr>Close = Num 10, Volume = Num 20\<rparr>,
      \<lparr>Close = Num 10, Volume = Num 100\<rparr>, \<lparr>Close = Num 11, Volume = Num 110\<rparr>]"
  by (simp add: rising_bars_def numeral_eq_Suc)

lemma rising_valid: "filter (\<lambda>b. Close b \<noteq> NaN) rising_bars = rising_bars"
  by (simp add: rising_bars_explicit)

lemma rising_length: "length rising_bars = 10"
  by (simp add: rising_bars_explicit)

lemma rising_ma5_vol: "MA5_vol (with_averages rising_bars) ! 8 = Num 30"
  by (simp add: with_averages_def rolling_mean_def rising_bars_explicit window_mean_def upt_rec nth_Cons')

lemma rising_ma5: "MA5 (with_averages rising_bars) ! 9 = Num (51 / 5)"
  by (simp add: with_averages_def rolling_mean_def rising_bars_explicit window_mean_def upt_rec nth_Cons')

lemma rising_volumes:
  "map Volume rising_bars =
     [Num 10, Num 10, Num 10, Num 10, Num 10, Num 10, Num 10, Num 20, Num 100, Num 110]"
  by (simp add: rising_bars_explicit)

lemma rising_closes:
  "map Close rising_bars =
     [Num 10, Num 10, Num 10, Num 10, Num 10, Num 10, Num 10, Num 10, Num 10, Num 11]"
  by (simp add: rising_bars_explicit)

lemma rising_conditions:
  "evaluate_conditions (with_averages rising_bars) =
     \<lparr>cond_vols_up = True, cond_yesterday_vs_ma5 = True, cond_close_above_ma5 = True,
      cond_close_new10 = True, cond_pct = True, pct = Num 10\<rparr>"
proof -
  have hb: "h_bars (with_averages rising_bars) = rising_bars"
    by (simp add: with_averages_def)
  show ?thesis
    unfolding evaluate_conditions_def Let_def hb rising_length rising_volumes rising_closes
    by (simp add: rising_ma5_vol rising_ma5 isnan_def fl_gt_def fl_ge_def
        fl_max_def fl_max2_def fl_sub_def rint_def nth_Cons')
qed

lemma rising_verdict:
  "evaluate_frame rising_frame =
     \<lparr>passed = True,
      reason = Conditions \<lparr>cond_vols_up = True, cond_yesterday_vs_ma5 = True,
        cond_close_above_ma5 = True, cond_close_new10 = True, cond_pct = True, pct = Num 10\<rparr>,
      data = Some (with_averages rising_bars)\<rparr>"
  unfolding evaluate_frame_def Let_def
  by (simp add: rising_frame_def frame_empty_def rising_valid rising_length rising_conditions
      all_conditions_def) (simp add: rising_bars_explicit)

subsection \<open>Verdicts\<close>

lemma evaluate_frame_sufficient:
  assumes "''Close'' \<in> set (col_names d)" and "''Volume'' \<in> set (col_names d)"
    and "10 \<le> length (filter (\<lambda>b. Close b \<noteq> NaN) (bars d))"
  shows "evaluate_frame d =
     \<lparr>passed = all_conditions (evaluate_conditions (with_averages (filter (\<lambda>b. Close b \<noteq> NaN) (bars d)))),
      reason = Conditions (evaluate_conditions (with_averages (filter (\<lambda>b. Close b \<noteq> NaN) (bars d)))),
      data = Some (with_averages (filter (\<lambda>b. Close b \<noteq> NaN) (bars d)))\<rparr>"
proof -
  from assms(3) have "bars d \<noteq> []" by auto
  moreover from assms(1) have "col_names d \<noteq> []" by auto
  ultimately have "\<not> frame_empty d" by (simp add: frame_empty_def)
  with assms show ?thesis
    by (simp add: evaluate_frame_def Let_def)
qed

lemma is_strong_stock_frame:
  "dl (symbol_plain @ u ''.TW'') = Inr (Some d) \<Longrightarrow>
   is_strong_stock dl symbol_plain nm = evaluate_frame d"
  by (simp add: is_strong_stock_def)

text \<open>
  C1. On a history with a close and a volume field and at least ten valid bars, the
  reason is the record of the five conditions and \<open>passed\<close> holds exactly when all five
  do; so a single false condition makes \<open>passed\<close> false.
\<close>

theorem verdict_is_conjunction:
  fixes dl symbol_plain nm d
  defines "v \<equiv> is_strong_stock dl symbol_plain nm"
    and "c \<equiv> evaluate_conditions (with_averages (filter (\<lambda>b. Close b \<noteq> NaN) (bars d)))"
  assumes "dl (symbol_plain @ u ''.TW'') = Inr (Some d)"
    and "''Close'' \<in> set (col_names d)" and "''Volume'' \<in> set (col_names d)"
    and "10 \<le> length (filter (\<lambda>b. Close b \<noteq> NaN) (bars d))"
  shows "reason v = Conditions c \<and>
         (passed v \<longleftrightarrow> cond_vols_up c \<and> cond_yesterday_vs_ma5 c \<and> cond_close_above_ma5 c \<and>
                        cond_close_new10 c \<and> cond_pct c) \<and>
         (\<not> cond_vols_up c \<or> \<not> cond_yesterday_vs_ma5 c \<or> \<not> cond_close_above_ma5 c \<or>
          \<not> cond_close_new10 c \<or> \<not> cond_pct c \<longrightarrow> \<not> passed v)"
proof -
  have "v = evaluate_frame d"
    unfolding v_def by (rule is_strong_stock_frame) (rule assms(3))
  then have "v = \<lparr>passed = all_conditions c, reason = Conditions c,
      data = Some (with_averages (filter (\<lambda>b. Close b \<noteq> NaN) (bars d)))\<rparr>"
    using evaluate_frame_sufficient[OF assms(4,5,6)] by (simp add: c_def)
  then show ?thesis by (auto simp: all_conditions_def)
qed

theorem verdict_is_conjunction_witness:
  "reason (is_strong_stock (\<lambda>s. Inr (Some rising_frame)) (u ''1101'') (u ''Cement''))
     = Conditions \<lparr>cond_vols_up = True, cond_yesterday_vs_ma5 = True,
        cond_close_above_ma5 = True, cond_close_new10 = True, cond_pct = True, pct = Num 10\<rparr> \<and>
   passed (is_strong_stock (\<lambda>s. Inr (Some rising_frame)) (u ''1101'') (u ''Cement''))"
proof -
  have a: "Inr (Some rising_frame) = (Inr (Some rising_frame) :: py_error + frame option)"
    by simp
  have b: "''Close'' \<in> set (col_names rising_frame)" "''Volume'' \<in> set (col_names rising_frame)"
    by (simp_all add: rising_frame_def)
  have d: "10 \<le> length (filter (\<lambda>b. Close b \<noteq> NaN) (bars rising_frame))"
    by (simp add: rising_frame_def rising_valid rising_length)
  from verdict_is_conjunction[of "\<lambda>s. Inr (Some rising_frame)" "u ''1101''" rising_frame
      "u ''Cement''", OF a b d]
  show ?thesis
    by (simp add: rising_frame_def rising_valid rising_conditions)
qed

text \<open>
  C4 (amended). On a fetched history that is not empty, has a close and a volume field
  and keeps fewer than ten bars once the bars without a close are dropped, the verdict
  is \<open>passed = False\<close> with the reason \<open>short-history\<close>, whatever the bars hold.
\<close>

theorem short_history:
  assumes "dl (symbol_plain @ u ''.TW'') = Inr (Some d)"
    and "bars d \<noteq> []"
    and "''Close'' \<in> set (col_names d)" and "''Volume'' \<in> set (col_names d)"
    and "length (filter (\<lambda>b. Close b \<noteq> NaN) (bars d)) < 10"
  shows "passed (is_strong_stock dl symbol_plain nm) = False \<and>
         reason (is_strong_stock dl symbol_plain nm) = Tag ''short-history''"
proof -
  from assms(2,3) have "\<not> frame_empty d" by (auto simp: frame_empty_def)
  with assms(3,4,5) have "evaluate_frame d =
      \<lparr>passed = False, reason = Tag ''short-history'',
       data = Some (with_averages (filter (\<lambda>b. Close b \<noteq> NaN) (bars d)))\<rparr>"
    by (simp add: evaluate_frame_def Let_def)
  with assms(1) show ?thesis
    by (simp add: is_strong_stock_def)
qed

theorem short_history_witness:
  "passed (is_strong_stock
      (\<lambda>s. Inr (Some \<lparr>col_names = [''Close'', ''Volume''],
                     bars = [\<lparr>Close = Num 10, Volume = Num 10\<rparr>, \<lparr>Close = NaN, Volume = Num 5\<rparr>]\<rparr>))
      (u ''1101'') (u ''Cement'')) = False \<and>
   reason (is_strong_stock
      (\<lambda>s. Inr (Some \<lparr>col_names = [''Close'', ''Volume''],
                     bars = [\<lparr>Close = Num 10, Volume = Num 10\<rparr>, \<lparr>Close = NaN, Volume = Num 5\<rparr>]\<rparr>))
      (u ''1101'') (u ''Cement'')) = Tag ''short-history''"
proof -
  let ?d = "\<lparr>col_names = [''Close'', ''Volume''],
             bars = [\<lparr>Close = Num 10, Volume = Num 10\<rparr>, \<lparr>Close = NaN, Volume = Num 5\<rparr>]\<rparr>"
  have a: "Inr (Some ?d) = (Inr (Some ?d) :: py_error + frame option)" by simp
  have b: "bars ?d \<noteq> []" "''Close'' \<in> set (col_names ?d)" "''Volume'' \<in> set (col_names ?d)"
    by simp_all
  have d: "length (filter (\<lambda>b. Close b \<noteq> NaN) (bars ?d)) < 10" by simp
  from short_history[of "\<lambda>s. Inr (Some ?d)" "u ''1101''" ?d "u ''Cement''", OF a b d]
  show ?thesis .
qed

text \<open>
  C4 as stated fails on the empty history: it has fewer than ten bars, and the test of
  \<open>data.empty\<close> answers \<open>no-data\<close> before the bars are counted.
\<close>

theorem empty_series_counterexample:
  "length (filter (\<lambda>b. Close b \<noteq> NaN) (bars \<lparr>col_names = [''Close'', ''Volume''], bars = []\<rparr>)) < 10 \<and>
   reason (is_strong_stock (\<lambda>s. Inr (Some \<lparr>col_names = [''Close'', ''Volume''], bars = []\<rparr>))
      (u ''1101'') (u ''Cement'')) = Tag ''no-data'' \<and>
   reason (is_strong_stock (\<lambda>s. Inr (Some \<lparr>col_names = [''Close'', ''Volume''], bars = []\<rparr>))
      (u ''1101'') (u ''Cement'')) \<noteq> Tag ''short-history''"
  by (simp add: is_strong_stock_def evaluate_frame_def frame_empty_def)

subsection \<open>Single conditions\<close>

lemma rolling_mean_nth:
  assumes "i < length xs" and "k \<le> i + 1"
  shows "rolling_mean k xs ! i = window_mean (take k (drop (i + 1 - k) xs))"
  using assms by (simp add: rolling_mean_def)






lemma all_conditions_fields:
  "cond_yesterday_vs_ma5 (evaluate_conditions h) =
     (MA5_vol h ! (length (h_bars h) - 2) \<noteq> NaN \<and>
      fl_lt (fl_mul (MA5_vol h ! (length (h_bars h) - 2)) (Num 2))
        (map Volume (h_bars h) ! (length (h_bars h) - 2)))"
  "cond_close_new10 (evaluate_conditions h) =
     (fl_le (fl_max (drop (length (h_bars h) - 10) (map Close (h_bars h))))
        (map Close (h_bars h) ! (length (h_bars h) - 1)) \<or>
      fl_le (fl_mul (fl_max (drop (length (h_bars h) - 10) (map Close (h_bars h)))) (Num (95 / 100)))
        (map Close (h_bars h) ! (length (h_bars h) - 1)))"
  by (simp_all add: evaluate_conditions_def Let_def isnan_def fl_gt_def fl_ge_def)

text \<open>
  C5. On a sufficient history, \<open>cond_yesterday_vs_ma5\<close> holds exactly when the volume of
  the second-to-last bar is greater than twice the mean of the five volumes that end at
  that same bar (the bars \<open>n - 6\<close> to \<open>n - 2\<close>, not today's window), and it is false when
  that mean is NaN.
\<close>

theorem yesterday_vs_ma5_window:
  fixes dl symbol_plain nm d
  defines "bs \<equiv> filter (\<lambda>b. Close b \<noteq> NaN) (bars d)"
  defines "c \<equiv> evaluate_conditions (with_averages bs)"
    and "m \<equiv> window_mean (map Volume (take 5 (drop (length bs - 6) bs)))"
  assumes "dl (symbol_plain @ u ''.TW'') = Inr (Some d)"
    and "''Close'' \<in> set (col_names d)" and "''Volume'' \<in> set (col_names d)"
    and "10 \<le> length bs"
  shows "reason (is_strong_stock dl symbol_plain nm) = Conditions c \<and>
         (cond_yesterday_vs_ma5 c \<longleftrightarrow>
            m \<noteq> NaN \<and> fl_gt (Volume (bs ! (length bs - 2))) (fl_mul m (Num 2))) \<and>
         (m = NaN \<longrightarrow> \<not> cond_yesterday_vs_ma5 c)"
proof -
  have suff: "10 \<le> length (filter (\<lambda>b. Close b \<noteq> NaN) (bars d))"
    using assms(7) by (simp add: bs_def)
  have r: "reason (is_strong_stock dl symbol_plain nm) = Conditions c"
    using evaluate_frame_sufficient[OF assms(5,6) suff] assms(4)
    by (simp add: is_strong_stock_def c_def bs_def)
  have idx: "length bs - 2 < length (map Volume bs)" "5 \<le> length bs - 2 + 1"
    using assms(7) by auto
  have "MA5_vol (with_averages bs) ! (length bs - 2)
          = window_mean (take 5 (drop (length bs - 2 + 1 - 5) (map Volume bs)))"
    unfolding with_averages_def using rolling_mean_nth[OF idx] by simp
  also have "length bs - 2 + 1 - 5 = length bs - 6"
    using assms(7) by simp
  finally have ma: "MA5_vol (with_averages bs) ! (length bs - 2) = m"
    by (simp add: m_def take_map drop_map)
  have hb: "h_bars (with_averages bs) = bs" by (simp add: with_averages_def)
  have v: "map Volume bs ! (length bs - 2) = Volume (bs ! (length bs - 2))"
    using assms(7) by (simp add: nth_map)
  have "cond_yesterday_vs_ma5 c \<longleftrightarrow>
          m \<noteq> NaN \<and> fl_gt (Volume (bs ! (length bs - 2))) (fl_mul m (Num 2))"
    unfolding c_def all_conditions_fields(1) hb ma v by (simp add: fl_gt_def)
  with r show ?thesis by blast
qed

theorem yesterday_vs_ma5_window_witness:
  "reason (is_strong_stock (\<lambda>s. Inr (Some rising_frame)) (u ''1101'') (u ''Cement''))
     = Conditions (evaluate_conditions (with_averages rising_bars)) \<and>
   cond_yesterday_vs_ma5 (evaluate_conditions (with_averages rising_bars)) \<and>
   window_mean (map Volume (take 5 (drop (length rising_bars - 6) rising_bars))) = Num 30 \<and>
   Volume (rising_bars ! (length rising_bars - 2)) = Num 100"
proof -
  have a: "Inr (Some rising_frame) = (Inr (Some rising_frame) :: py_error + frame option)"
    by simp
  have b: "''Close'' \<in> set (col_names rising_frame)" "''Volume'' \<in> set (col_names rising_frame)"
    by (simp_all add: rising_frame_def)
  have d: "10 \<le> length (filter (\<lambda>b. Close b \<noteq> NaN) (bars rising_frame))"
    by (simp add: rising_frame_def rising_valid rising_length)
  have e: "window_mean (map Volume (take 5 (drop (length rising_bars - 6) rising_bars))) = Num 30"
    "Volume (rising_bars ! (length rising_bars - 2)) = Num 100"
    by (simp_all add: rising_bars_explicit window_mean_def)
  from yesterday_vs_ma5_window[of "\<lambda>s. Inr (Some rising_frame)" "u ''1101''" rising_frame
      "u ''Cement''", OF a b d] e
  show ?thesis
    by (simp add: rising_frame_def rising_valid rising_conditions)
qed



subsection \<open>Fetching and running\<close>

text \<open>
  C6. A payload that is not a dict (here an empty list, and \<open>null\<close>) makes
  \<open>fetch_twse_table\<close> raise \<open>AttributeError\<close> instead of returning a failure; an
  empty dict is answered with the failure.
\<close>

theorem non_dict_payload_raises:
  "fetch_twse_table mk (Inr (JList [])) = Raised AttributeError \<and>
   fetch_twse_table mk (Inr JNull) = Raised AttributeError \<and>
   fetch_twse_table mk (Inr (JDict [])) = Returned (Inl NoTable)"
  by (simp add: fetch_twse_table_def table_of_def)

lemma extract_top300_write_raises:
  assumes "extract_top300 srt (\<lambda>t. None) df = Returned (Inr uni)" and "csv uni = Some e"
  shows "extract_top300 srt csv df = Raised e"
  using assms
  by (auto simp: extract_top300_def Let_def split: option.splits list.splits)

lemma sample_fetch:
  "fetch_twse_table (\<lambda>d f. Some one_row_table)
     (Inr (JDict [(u ''data'', JList []), (u ''fields'', JList [])])) = Returned (Inr one_row_table)"
  by (simp add: fetch_twse_table_def table_of_def u_def)

lemma one_row_universe:
  "extract_top300 insertion_argsort (\<lambda>t. None) one_row_table
   = Returned (Inr [\<lparr>code = u ''1101'', name = u ''Cement'', volume_shares = Num 1234567,
        close_price = Num (456 / 10), volume_lots = Num (1234567 / 1000)\<rparr>])"
  by (simp add: one_row_table_def extract_top300_std sample_row_cement sample_excluded
      sort_values_one derive_lots_def rint_def)

lemma strip_sample: "py_strip (u ''1101'') = u ''1101''" "py_strip (u ''Cement'') = u ''Cement''"
  by (simp_all add: py_strip_def py_isspace_def u_def)

lemma one_row_strong:
  "evaluate_all report_write_fails
     [\<lparr>code = u ''1101'', name = u ''Cement'', volume_shares = Num 1234567,
        close_price = Num (456 / 10), volume_lots = Num (1234567 / 1000)\<rparr>]
   = ([(u ''1101'', u ''Cement'',
        Conditions \<lparr>cond_vols_up = True, cond_yesterday_vs_ma5 = True,
          cond_close_above_ma5 = True, cond_close_new10 = True, cond_pct = True,
          pct = Num 10\<rparr>)], [])"
  by (simp add: evaluate_all_def evaluate_row_def strip_sample report_write_fails_def
      is_strong_stock_def rising_verdict)

text \<open>
  C9. Neither write is caught. When the write of the universe snapshot raises
  \<open>OSError\<close>, the exception leaves \<open>extract_top300\<close> and \<open>main\<close> after the start
  message and before any instrument is evaluated; when the write of the strong-stocks
  file raises \<open>OSError\<close>, the exception leaves \<open>main\<close> after the list of strong stocks
  was sent.
\<close>

theorem csv_write_failure_escapes:
  "extract_top300 insertion_argsort (\<lambda>t. Some OSError) one_row_table = Raised OSError \<and>
   main snapshot_write_fails = ([Started], Raised OSError) \<and>
   main report_write_fails =
     ([Started, UniverseSize 1, StrongList [(u ''1101'', u ''Cement'')]], Raised OSError)"
proof -
  have a: "extract_top300 insertion_argsort (\<lambda>t. Some OSError) one_row_table = Raised OSError"
    by (rule extract_top300_write_raises[OF one_row_universe]) simp
  have b: "main snapshot_write_fails = ([Started], Raised OSError)"
    by (simp add: main_def snapshot_write_fails_def sample_fetch a)
  have c: "main report_write_fails =
     ([Started, UniverseSize 1, StrongList [(u ''1101'', u ''Cement'')]], Raised OSError)"
    using one_row_strong
    by (simp add: main_def sample_fetch one_row_universe)
       (simp add: report_write_fails_def sample_fetch one_row_universe)
  from a b c show ?thesis by blast
qed

end
